theory Spec2Isabelle
  imports Complex_Main "HOL-Library.Char_ord" "HOL-Library.List_Lexorder"
begin

section \<open>Data model\<close>

text \<open>
  The scripts keep every memory as a JSON dictionary. The keys the scripts read with
  \<^verbatim>\<open>meta.get(key, default)\<close> may be absent and are options here; \<^verbatim>\<open>meta["confidence"]\<close> is read
  without a default and is a plain field. Python floats are taken as exact real numbers
  (rounding errors of the binary representation are outside the model), Python integers
  as \<open>int\<close>. A time stamp is the number of microseconds since the epoch: the ISO text
  that the scripts store and parse with \<^verbatim>\<open>datetime.fromisoformat\<close> is abstracted to that number.
  Strings are lists of characters with code points below 256, compared by code point as
  Python does.
\<close>

type_synonym timestamp = int

record metadata =
  confidence :: real
  status :: "string option"
  positive_reinforcement :: "int option"
  negative_reinforcement :: "int option"
  access_count :: "int option"
  last_accessed :: "timestamp option"
  created_at :: "timestamp option"

record content =
  title :: "string option"
  description :: "string option"
  action :: "string option"
  examples :: "string list"

record memory =
  mem_id :: string
  mem_type :: string
  mem_content :: content
  meta :: metadata
  scope_path :: "string option"

record index_entry =
  ie_id :: string
  ie_confidence :: real
  ie_last_accessed :: "timestamp option"
  ie_access_count :: int

text \<open>One line of \<^verbatim>\<open>feedback.jsonl\<close> after \<^verbatim>\<open>line.strip()\<close> and \<^verbatim>\<open>json.loads\<close>: a blank or
  comment line, a line that raises \<^verbatim>\<open>JSONDecodeError\<close>, or a dictionary.\<close>

record feedback_entry =
  timestamp :: "string option"
  memory_id :: "string option"
  outcome :: "string option"
  fb_type :: "string option"
  auto_creates_memory :: bool
  feedback :: "string option"
  correct_action :: "string option"
  session_id :: "string option"

datatype feedback_line = Blank | Malformed | Entry feedback_entry

text \<open>The files the confidence script reads and writes: the memory files (found by id),
  the index with its global list and its per-project lists (in dictionary order), the
  feedback log (absent or a list of lines) and the marker file \<^verbatim>\<open>.feedback_processed\<close>.\<close>

record state =
  memories :: "string \<rightharpoonup> memory"
  index_global :: "index_entry list"
  index_projects :: "(string \<times> index_entry list) list"
  feedback_file :: "feedback_line list option"
  feedback_processed :: "string option"

definition get0 :: "int option \<Rightarrow> int" where
  "get0 v = (case v of None \<Rightarrow> 0 | Some n \<Rightarrow> n)"

section \<open>Confidence engine: \<^verbatim>\<open>update-confidence.py\<close>\<close>

subsection \<open>\<^verbatim>\<open>adjust_confidence\<close>\<close>

text \<open>Lines 42 to 71: the change of the metadata dictionary.\<close>

definition apply_outcome :: "string \<Rightarrow> metadata \<Rightarrow> metadata" where
  "apply_outcome oc m =
     (if oc = ''accepted'' then
        m\<lparr>confidence := min 1 (confidence m + 0.1),
          positive_reinforcement := Some (get0 (positive_reinforcement m) + 1)\<rparr>
      else if oc = ''rejected'' then
        (let m1 = m\<lparr>confidence := max 0.1 (confidence m - 0.2),
                     negative_reinforcement := Some (get0 (negative_reinforcement m) + 1)\<rparr>
         in if confidence m1 < 0.3 then m1\<lparr>status := Some ''under_review''\<rparr> else m1)
      else if oc = ''superseded'' then m\<lparr>status := Some ''superseded''\<rparr>
      else m)"

definition apply_delta :: "real \<Rightarrow> metadata \<Rightarrow> metadata" where
  "apply_delta confidence_delta m =
     (if confidence_delta \<noteq> 0
      then m\<lparr>confidence := min 1 (max 0.1 (confidence m + confidence_delta))\<rparr>
      else m)"

definition touch :: "timestamp \<Rightarrow> metadata \<Rightarrow> metadata" where
  "touch now m = m\<lparr>last_accessed := Some now, access_count := Some (get0 (access_count m) + 1)\<rparr>"

definition adjust_meta :: "timestamp \<Rightarrow> string \<Rightarrow> real \<Rightarrow> metadata \<Rightarrow> metadata" where
  "adjust_meta now oc confidence_delta m = touch now (apply_delta confidence_delta (apply_outcome oc m))"

text \<open>Lines 82 to 103: the first index entry with the memory's id is refreshed, in the
  global list first and otherwise in the first project list that has one.\<close>

definition sync_entry :: "metadata \<Rightarrow> index_entry \<Rightarrow> index_entry" where
  "sync_entry m e = e\<lparr>ie_confidence := confidence m,
                       ie_last_accessed := last_accessed m,
                       ie_access_count := get0 (access_count m)\<rparr>"

fun update_first :: "string \<Rightarrow> metadata \<Rightarrow> index_entry list \<Rightarrow> bool \<times> index_entry list" where
  "update_first i m [] = (False, [])"
| "update_first i m (e # es) =
     (if ie_id e = i then (True, sync_entry m e # es)
      else (case update_first i m es of (u, es') \<Rightarrow> (u, e # es')))"

fun update_projects :: "string \<Rightarrow> metadata \<Rightarrow> (string \<times> index_entry list) list
    \<Rightarrow> (string \<times> index_entry list) list" where
  "update_projects i m [] = []"
| "update_projects i m ((h, es) # ps) =
     (case update_first i m es of
        (True, es') \<Rightarrow> (h, es') # ps
      | (False, es') \<Rightarrow> (h, es') # update_projects i m ps)"

definition update_index :: "string \<Rightarrow> metadata \<Rightarrow> state \<Rightarrow> state" where
  "update_index i m st =
     (case update_first i m (index_global st) of
        (True, g) \<Rightarrow> st\<lparr>index_global := g\<rparr>
      | (False, g) \<Rightarrow> st\<lparr>index_projects := update_projects i m (index_projects st)\<rparr>)"

text \<open>The whole function: \<open>False\<close> when \<^verbatim>\<open>load_memory\<close> finds nothing, otherwise the memory
  file is rewritten, the index refreshed and \<open>True\<close> returned. The clock reading
  \<^verbatim>\<open>datetime.utcnow()\<close> is the argument \<open>now\<close>.\<close>

definition adjust_confidence :: "timestamp \<Rightarrow> string \<Rightarrow> string \<Rightarrow> real \<Rightarrow> state \<Rightarrow> bool \<times> state" where
  "adjust_confidence now i oc confidence_delta st =
     (case memories st i of
        None \<Rightarrow> (False, st)
      | Some mem \<Rightarrow>
          (let m' = adjust_meta now oc confidence_delta (meta mem);
               st1 = st\<lparr>memories := (memories st)(i \<mapsto> mem\<lparr>meta := m'\<rparr>)\<rparr>
           in (True, update_index i m' st1)))"

subsection \<open>Properties of \<^verbatim>\<open>adjust_confidence\<close>\<close>

lemma memories_update_index [simp]: "memories (update_index i m st) = memories st"
  by (simp add: update_index_def split: prod.splits bool.splits)

lemma adjust_confidence_found:
  assumes "memories st i = Some mem"
  shows "fst (adjust_confidence now i oc d st) = True"
    and "memories (snd (adjust_confidence now i oc d st)) i
           = Some (mem\<lparr>meta := adjust_meta now oc d (meta mem)\<rparr>)"
  using assms by (simp_all add: adjust_confidence_def Let_def)

subsection \<open>\<^verbatim>\<open>apply_confidence_decay\<close>\<close>

record decay_stats =
  ds_processed :: nat
  ds_decayed :: nat
  ds_archived :: nat
  ds_unchanged :: nat

text \<open>Lines 149 to 154: \<^verbatim>\<open>timedelta.days\<close> is the difference divided by one day, rounded
  down; a memory with neither time stamp takes the configured \<^verbatim>\<open>confidence_decay_days\<close>.\<close>

definition days_since_access :: "int \<Rightarrow> timestamp \<Rightarrow> metadata \<Rightarrow> int" where
  "days_since_access decay_days now m =
     (case (case last_accessed m of Some t \<Rightarrow> Some t | None \<Rightarrow> created_at m) of
        Some t \<Rightarrow> (now - t) div 86400000000
      | None \<Rightarrow> decay_days)"

text \<open>Lines 160 to 172. The reinforcement multiplier is applied under the guard
  \<^verbatim>\<open>if total > 0\<close>, and \<^verbatim>\<open>total\<close> is \<^verbatim>\<open>meta.get("access_count", 1)\<close>.\<close>

definition decay_factor :: "int \<Rightarrow> metadata \<Rightarrow> real" where
  "decay_factor days m =
     (let f = 0.99 ^ nat days;
          positive = get0 (positive_reinforcement m);
          total = (case access_count m of None \<Rightarrow> 1 | Some n \<Rightarrow> n)
      in if total > 0
         then f * (0.5 + 0.5 * (real_of_int positive / real_of_int total))
         else f)"

text \<open>Lines 174 to 178.\<close>

definition new_confidence :: "real \<Rightarrow> int \<Rightarrow> metadata \<Rightarrow> real" where
  "new_confidence min_confidence days m = max min_confidence (confidence m * decay_factor days m)"

text \<open>Python's \<^verbatim>\<open>round(x, 3)\<close>: to the nearest multiple of a thousandth, a tie to the even one.\<close>

definition round_half_even :: "real \<Rightarrow> int" where
  "round_half_even x =
     (let f = \<lfloor>x\<rfloor>; d = x - of_int f
      in if d < 1/2 then f else if 1/2 < d then f + 1 else if even f then f else f + 1)"

definition round3 :: "real \<Rightarrow> real" where
  "round3 x = of_int (round_half_even (x * 1000)) / 1000"

text \<open>The nested function \<^verbatim>\<open>process_memory\<close> (lines 135 to 208) for one index entry: it
  returns the entry, the statistics and the memory files as it leaves them.\<close>

definition process_memory ::
  "int \<Rightarrow> real \<Rightarrow> timestamp \<Rightarrow> bool \<Rightarrow> index_entry \<Rightarrow> decay_stats \<times> (string \<rightharpoonup> memory)
     \<Rightarrow> index_entry \<times> decay_stats \<times> (string \<rightharpoonup> memory)" where
  "process_memory decay_days min_confidence now dry_run e sm =
     (case sm of (stats, mems) \<Rightarrow>
      (case mems (ie_id e) of
         None \<Rightarrow> (e, stats, mems)
       | Some mem \<Rightarrow>
           (let stats1 = stats\<lparr>ds_processed := ds_processed stats + 1\<rparr>;
                m = meta mem
            in if status m = Some ''archived'' \<or> status m = Some ''superseded''
               then (e, stats1\<lparr>ds_unchanged := ds_unchanged stats1 + 1\<rparr>, mems)
               else
                 (let days = days_since_access decay_days now m
                  in if days < 1
                     then (e, stats1\<lparr>ds_unchanged := ds_unchanged stats1 + 1\<rparr>, mems)
                     else
                       (let old_confidence = confidence m;
                            new = new_confidence min_confidence days m
                        in if \<bar>new - old_confidence\<bar> > 0.001
                           then
                             (let stats2 = stats1\<lparr>ds_decayed := ds_decayed stats1 + 1\<rparr>
                              in if \<not> dry_run
                                 then
                                   (let m1 = m\<lparr>confidence := round3 new\<rparr>;
                                        m2 = (if new \<le> min_confidence
                                              then m1\<lparr>status := Some ''archived''\<rparr> else m1);
                                        stats3 = (if new \<le> min_confidence
                                                  then stats2\<lparr>ds_archived := ds_archived stats2 + 1\<rparr>
                                                  else stats2)
                                    in (e\<lparr>ie_confidence := confidence m2\<rparr>, stats3,
                                        mems(ie_id e \<mapsto> mem\<lparr>meta := m2\<rparr>)))
                                 else (e, stats2, mems))
                           else (e, stats1\<lparr>ds_unchanged := ds_unchanged stats1 + 1\<rparr>, mems))))))"

text \<open>The two loops over the index (lines 210 to 217) and the final \<^verbatim>\<open>save_index\<close>.\<close>

fun process_entries ::
  "int \<Rightarrow> real \<Rightarrow> timestamp \<Rightarrow> bool \<Rightarrow> index_entry list \<Rightarrow> decay_stats \<times> (string \<rightharpoonup> memory)
     \<Rightarrow> index_entry list \<times> decay_stats \<times> (string \<rightharpoonup> memory)" where
  "process_entries dd mc now dry [] sm = ([], sm)"
| "process_entries dd mc now dry (e # es) sm =
     (case process_memory dd mc now dry e sm of
        (e', sm') \<Rightarrow> (case process_entries dd mc now dry es sm' of (es', sm'') \<Rightarrow> (e' # es', sm'')))"

fun process_projects ::
  "int \<Rightarrow> real \<Rightarrow> timestamp \<Rightarrow> bool \<Rightarrow> (string \<times> index_entry list) list
     \<Rightarrow> decay_stats \<times> (string \<rightharpoonup> memory)
     \<Rightarrow> (string \<times> index_entry list) list \<times> decay_stats \<times> (string \<rightharpoonup> memory)" where
  "process_projects dd mc now dry [] sm = ([], sm)"
| "process_projects dd mc now dry ((h, es) # ps) sm =
     (case process_entries dd mc now dry es sm of
        (es', sm') \<Rightarrow> (case process_projects dd mc now dry ps sm' of (ps', sm'') \<Rightarrow> ((h, es') # ps', sm'')))"

definition apply_confidence_decay :: "int \<Rightarrow> real \<Rightarrow> timestamp \<Rightarrow> bool \<Rightarrow> state \<Rightarrow> decay_stats \<times> state" where
  "apply_confidence_decay decay_days min_confidence now dry_run st =
     (case process_entries decay_days min_confidence now dry_run (index_global st)
             (\<lparr>ds_processed = 0, ds_decayed = 0, ds_archived = 0, ds_unchanged = 0\<rparr>, memories st) of
        (g, sm) \<Rightarrow>
          (case process_projects decay_days min_confidence now dry_run (index_projects st) sm of
             (ps, stats, mems) \<Rightarrow>
               (stats, if dry_run then st\<lparr>memories := mems\<rparr>
                       else st\<lparr>memories := mems, index_global := g, index_projects := ps\<rparr>)))"

section \<open>Python strings\<close>

text \<open>\<^verbatim>\<open>str.isspace\<close> and the regular expression class \<^verbatim>\<open>\s\<close> on code points below 256.\<close>

definition is_space :: "char \<Rightarrow> bool" where
  "is_space c = (let n = (of_char c :: nat)
                 in (9 \<le> n \<and> n \<le> 13) \<or> (28 \<le> n \<and> n \<le> 32) \<or> n = 133 \<or> n = 160)"

definition lstrip :: "string \<Rightarrow> string" where
  "lstrip s = dropWhile is_space s"

definition rstrip :: "string \<Rightarrow> string" where
  "rstrip s = rev (dropWhile is_space (rev s))"

definition strip :: "string \<Rightarrow> string" where
  "strip s = rstrip (lstrip s)"

text \<open>Truthiness of an optional string: \<^verbatim>\<open>None\<close> and the empty string are false.\<close>

definition truthy :: "string option \<Rightarrow> bool" where
  "truthy v = (case v of None \<Rightarrow> False | Some s \<Rightarrow> s \<noteq> [])"

definition get_str :: "string option \<Rightarrow> string \<Rightarrow> string" where
  "get_str v d = (case v of None \<Rightarrow> d | Some s \<Rightarrow> s)"


subsection \<open>\<^verbatim>\<open>process_pending_feedback\<close>\<close>

record feedback_stats =
  fs_processed :: nat
  fs_errors :: nat
  fs_corrections_created :: nat

datatype exn = Exception


text \<open>Lines 276 to 315, the body of the loop for one entry. \<^verbatim>\<open>create_correction_memory\<close>
  belongs to \<^verbatim>\<open>memory_lib\<close>, which is not among the sources: it is the parameter \<open>ccm\<close>, which
  raises (\<open>Inl\<close>) or returns the new id or \<^verbatim>\<open>None\<close>, and leaves a state.\<close>

type_synonym correction_maker =
  "string \<Rightarrow> string \<Rightarrow> string \<Rightarrow> string option \<Rightarrow> state \<Rightarrow> (exn + string option) \<times> state"

definition process_entry ::
  "correction_maker \<Rightarrow> timestamp \<Rightarrow> feedback_entry \<Rightarrow> feedback_stats \<times> state \<Rightarrow> feedback_stats \<times> state" where
  "process_entry ccm now e ss =
     (case ss of (stats, st) \<Rightarrow>
        if \<not> truthy (memory_id e) \<or> \<not> truthy (outcome e)
        then (stats\<lparr>fs_errors := fs_errors stats + 1\<rparr>, st)
        else
          (case adjust_confidence now (get_str (memory_id e) []) (get_str (outcome e) []) 0 st of
             (True, st1) \<Rightarrow>
               (let stats1 = stats\<lparr>fs_processed := fs_processed stats + 1\<rparr>
                in if fb_type e = Some ''correction'' \<and> auto_creates_memory e
                   then
                     (case ccm (get_str (memory_id e) [])
                               (get_str (feedback e) ''Correction applied'')
                               (get_str (correct_action e) ''Use the corrected approach'')
                               (session_id e) st1 of
                        (Inl _, st2) \<Rightarrow> (stats1\<lparr>fs_errors := fs_errors stats1 + 1\<rparr>, st2)
                      | (Inr new_id, st2) \<Rightarrow>
                          (if truthy new_id
                           then stats1\<lparr>fs_corrections_created := fs_corrections_created stats1 + 1\<rparr>
                           else stats1, st2))
                   else (stats1, st1))
           | (False, st1) \<Rightarrow> (stats\<lparr>fs_errors := fs_errors stats + 1\<rparr>, st1)))"



subsection \<open>Properties of the feedback path\<close>

definition stored_meta :: "state \<Rightarrow> string \<Rightarrow> metadata option" where
  "stored_meta st i = map_option meta (memories st i)"

definition example_memory :: memory where
  "example_memory =
     \<lparr>mem_id = ''m1'', mem_type = ''preference'',
      mem_content = \<lparr>title = Some ''Use tabs'', description = Some ''Indent with tabs'',
                     action = None, examples = []\<rparr>,
      meta = \<lparr>confidence = 0.4, status = Some ''active'', positive_reinforcement = Some 2,
              negative_reinforcement = None, access_count = Some 4,
              last_accessed = Some 0, created_at = Some 0\<rparr>,
      scope_path = None\<rparr>"

definition example_state :: state where
  "example_state =
     \<lparr>memories = [''m1'' \<mapsto> example_memory],
      index_global = [\<lparr>ie_id = ''m1'', ie_confidence = 0.4, ie_last_accessed = Some 0,
                       ie_access_count = 4\<rparr>],
      index_projects = [], feedback_file = None, feedback_processed = None\<rparr>"

lemma adjust_meta_accepted:
  "adjust_meta now ''accepted'' 0 m =
     m\<lparr>confidence := min 1 (confidence m + 0.1),
       positive_reinforcement := Some (get0 (positive_reinforcement m) + 1),
       last_accessed := Some now,
       access_count := Some (get0 (access_count m) + 1)\<rparr>"
  by (simp add: adjust_meta_def touch_def apply_delta_def apply_outcome_def)

lemma adjust_meta_rejected:
  "adjust_meta now ''rejected'' 0 m =
     m\<lparr>confidence := max 0.1 (confidence m - 0.2),
       negative_reinforcement := Some (get0 (negative_reinforcement m) + 1),
       status := (if max 0.1 (confidence m - 0.2) < 0.3 then Some ''under_review'' else status m),
       last_accessed := Some now,
       access_count := Some (get0 (access_count m) + 1)\<rparr>"
  by (simp add: adjust_meta_def touch_def apply_delta_def apply_outcome_def Let_def max_def)

lemma adjust_meta_other:
  "oc \<noteq> ''accepted'' \<Longrightarrow> oc \<noteq> ''rejected'' \<Longrightarrow> oc \<noteq> ''superseded'' \<Longrightarrow>
   adjust_meta now oc 0 m =
     m\<lparr>last_accessed := Some now, access_count := Some (get0 (access_count m) + 1)\<rparr>"
  by (simp add: adjust_meta_def touch_def apply_delta_def apply_outcome_def)

text \<open>
  Claim C2. For a stored memory, \<^verbatim>\<open>adjust_confidence\<close> with outcome \<^verbatim>\<open>accepted\<close> succeeds and
  stores confidence \<open>min 1 (c + 0.1)\<close> and \<^verbatim>\<open>positive_reinforcement\<close> raised by one; with
  outcome \<^verbatim>\<open>rejected\<close> it stores confidence \<open>max 0.1 (c - 0.2)\<close>, \<^verbatim>\<open>negative_reinforcement\<close>
  raised by one, and the status \<^verbatim>\<open>under_review\<close> when the new confidence is below 0.3 and
  the old status otherwise. Beyond that only \<^verbatim>\<open>last_accessed\<close> and \<^verbatim>\<open>access_count\<close> change.
  It holds for every confidence \<open>c\<close>, so for those between 0.1 and 1.
\<close>

theorem adjust_accepted_rejected:
  assumes "memories st i = Some mem"
  shows "fst (adjust_confidence now i ''accepted'' 0 st)
       \<and> stored_meta (snd (adjust_confidence now i ''accepted'' 0 st)) i =
           Some ((meta mem)\<lparr>confidence := min 1 (confidence (meta mem) + 0.1),
                   positive_reinforcement := Some (get0 (positive_reinforcement (meta mem)) + 1),
                   last_accessed := Some now,
                   access_count := Some (get0 (access_count (meta mem)) + 1)\<rparr>)
       \<and> fst (adjust_confidence now i ''rejected'' 0 st)
       \<and> stored_meta (snd (adjust_confidence now i ''rejected'' 0 st)) i =
           Some ((meta mem)\<lparr>confidence := max 0.1 (confidence (meta mem) - 0.2),
                   negative_reinforcement := Some (get0 (negative_reinforcement (meta mem)) + 1),
                   status := (if max 0.1 (confidence (meta mem) - 0.2) < 0.3
                              then Some ''under_review'' else status (meta mem)),
                   last_accessed := Some now,
                   access_count := Some (get0 (access_count (meta mem)) + 1)\<rparr>)"
  by (simp only: stored_meta_def adjust_confidence_found [OF assms] adjust_meta_accepted
        adjust_meta_rejected) simp

theorem adjust_accepted_rejected_witness:
  "memories example_state ''m1'' = Some example_memory
   \<and> fst (adjust_confidence 7 ''m1'' ''accepted'' 0 example_state)
   \<and> map_option confidence (stored_meta (snd (adjust_confidence 7 ''m1'' ''accepted'' 0 example_state)) ''m1'') = Some 0.5
   \<and> map_option positive_reinforcement (stored_meta (snd (adjust_confidence 7 ''m1'' ''accepted'' 0 example_state)) ''m1'') = Some (Some 3)
   \<and> map_option confidence (stored_meta (snd (adjust_confidence 7 ''m1'' ''rejected'' 0 example_state)) ''m1'') = Some 0.2
   \<and> map_option negative_reinforcement (stored_meta (snd (adjust_confidence 7 ''m1'' ''rejected'' 0 example_state)) ''m1'') = Some (Some 1)
   \<and> map_option status (stored_meta (snd (adjust_confidence 7 ''m1'' ''rejected'' 0 example_state)) ''m1'') = Some (Some ''under_review'')"
proof -
  have h: "memories example_state ''m1'' = Some example_memory"
    by (simp add: example_state_def)
  show ?thesis
    using h adjust_accepted_rejected [OF h, of 7]
    by (simp add: example_memory_def get0_def)
qed


lemma process_entry_adjusted:
  assumes "memories st i = Some mem" "memory_id e = Some i" "outcome e = Some oc"
    and "i \<noteq> []" "oc \<noteq> []"
  shows "fs_processed (fst (process_entry ccm now e (stats, st))) = fs_processed stats + 1"
    and "fs_errors (fst (process_entry ccm now e (stats, st))) =
           fs_errors stats +
           (if fb_type e = Some ''correction'' \<and> auto_creates_memory e
               \<and> isl (fst (ccm i (get_str (feedback e) ''Correction applied'')
                              (get_str (correct_action e) ''Use the corrected approach'')
                              (session_id e) (snd (adjust_confidence now i oc 0 st))))
            then 1 else 0)"
proof -
  define st1 where "st1 = snd (adjust_confidence now i oc 0 st)"
  have a: "adjust_confidence now i oc 0 st = (True, st1)"
    using adjust_confidence_found(1) [OF assms(1), of now oc 0]
    by (simp add: st1_def prod_eq_iff)
  have t: "truthy (memory_id e)" "truthy (outcome e)"
    "get_str (memory_id e) [] = i" "get_str (outcome e) [] = oc"
    using assms(2-5) by (simp_all add: truthy_def get_str_def)
  obtain v st2 where r: "ccm i (get_str (feedback e) ''Correction applied'')
                          (get_str (correct_action e) ''Use the corrected approach'')
                          (session_id e) st1 = (v, st2)"
    by (cases "ccm i (get_str (feedback e) ''Correction applied'')
                 (get_str (correct_action e) ''Use the corrected approach'')
                 (session_id e) st1") blast
  show "fs_processed (fst (process_entry ccm now e (stats, st))) = fs_processed stats + 1"
    by (cases v) (simp_all add: process_entry_def t a r Let_def)
  show "fs_errors (fst (process_entry ccm now e (stats, st))) =
           fs_errors stats +
           (if fb_type e = Some ''correction'' \<and> auto_creates_memory e
               \<and> isl (fst (ccm i (get_str (feedback e) ''Correction applied'')
                              (get_str (correct_action e) ''Use the corrected approach'')
                              (session_id e) (snd (adjust_confidence now i oc 0 st))))
            then 1 else 0)"
    unfolding st1_def [symmetric]
    by (cases v) (simp_all add: process_entry_def t a r Let_def)
qed

text \<open>
  Claim C10. For a stored memory and an outcome other than \<^verbatim>\<open>accepted\<close>, \<^verbatim>\<open>rejected\<close> and
  \<^verbatim>\<open>superseded\<close>, \<^verbatim>\<open>adjust_confidence\<close> returns \<open>True\<close> and stores the metadata with
  \<^verbatim>\<open>last_accessed\<close> set to the clock reading and \<^verbatim>\<open>access_count\<close> raised by one, confidence,
  status and both reinforcement counters as they were. A feedback entry that names this
  memory and carries this outcome (a non-empty one: the loop counts an entry without a
  memory id or outcome as an error before it calls \<^verbatim>\<open>adjust_confidence\<close>) raises the count of
  processed entries by one, and the count of errors only when the entry is a correction
  asking for a new memory whose creation raises.
\<close>

theorem adjust_unrecognized_outcome:
  assumes "memories st i = Some mem"
    and "oc \<noteq> ''accepted''" "oc \<noteq> ''rejected''" "oc \<noteq> ''superseded''"
  shows "fst (adjust_confidence now i oc 0 st)
       \<and> stored_meta (snd (adjust_confidence now i oc 0 st)) i =
           Some ((meta mem)\<lparr>last_accessed := Some now,
                   access_count := Some (get0 (access_count (meta mem)) + 1)\<rparr>)
       \<and> (\<forall>(e::feedback_entry) stats ccm.
             memory_id e = Some i \<and> outcome e = Some oc \<and> i \<noteq> [] \<and> oc \<noteq> [] \<longrightarrow>
             fs_processed (fst (process_entry ccm now e (stats, st))) = fs_processed stats + 1
           \<and> fs_errors (fst (process_entry ccm now e (stats, st))) =
               fs_errors stats +
               (if fb_type e = Some ''correction'' \<and> auto_creates_memory e
                   \<and> isl (fst (ccm i (get_str (feedback e) ''Correction applied'')
                                  (get_str (correct_action e) ''Use the corrected approach'')
                                  (session_id e) (snd (adjust_confidence now i oc 0 st))))
                then 1 else 0))"
proof (intro conjI allI impI)
  show "fst (adjust_confidence now i oc 0 st)"
    by (simp add: adjust_confidence_found(1) [OF assms(1)])
  show "stored_meta (snd (adjust_confidence now i oc 0 st)) i =
           Some ((meta mem)\<lparr>last_accessed := Some now,
                   access_count := Some (get0 (access_count (meta mem)) + 1)\<rparr>)"
    by (simp add: stored_meta_def adjust_confidence_found(2) [OF assms(1)]
          adjust_meta_other [OF assms(2-4)])
next
  fix e :: feedback_entry and stats :: feedback_stats and ccm :: correction_maker
  assume h: "memory_id e = Some i \<and> outcome e = Some oc \<and> i \<noteq> [] \<and> oc \<noteq> []"
  show "fs_processed (fst (process_entry ccm now e (stats, st))) = fs_processed stats + 1"
    using h process_entry_adjusted(1) [OF assms(1), of e oc] by blast
  show "fs_errors (fst (process_entry ccm now e (stats, st))) =
               fs_errors stats +
               (if fb_type e = Some ''correction'' \<and> auto_creates_memory e
                   \<and> isl (fst (ccm i (get_str (feedback e) ''Correction applied'')
                                  (get_str (correct_action e) ''Use the corrected approach'')
                                  (session_id e) (snd (adjust_confidence now i oc 0 st))))
                then 1 else 0)"
    using h process_entry_adjusted(2) [OF assms(1), of e oc] by blast
qed

definition example_entry :: feedback_entry where
  "example_entry =
     \<lparr>timestamp = Some ''2024-05-01T10:00:00Z'', memory_id = Some ''m1'',
      outcome = Some ''ignored'', fb_type = None, auto_creates_memory = False,
      feedback = None, correct_action = None, session_id = None\<rparr>"

definition no_correction :: correction_maker where
  "no_correction i t a s st = (Inr None, st)"

definition zero_stats :: feedback_stats where
  "zero_stats = \<lparr>fs_processed = 0, fs_errors = 0, fs_corrections_created = 0\<rparr>"

theorem adjust_unrecognized_outcome_witness:
  "memories example_state ''m1'' = Some example_memory
   \<and> fst (adjust_confidence 7 ''m1'' ''ignored'' 0 example_state)
   \<and> stored_meta (snd (adjust_confidence 7 ''m1'' ''ignored'' 0 example_state)) ''m1'' =
       Some ((meta example_memory)\<lparr>last_accessed := Some 7, access_count := Some 5\<rparr>)
   \<and> fs_processed (fst (process_entry no_correction 7 example_entry (zero_stats, example_state))) = 1
   \<and> fs_errors (fst (process_entry no_correction 7 example_entry (zero_stats, example_state))) = 0"
proof -
  have h: "memories example_state ''m1'' = Some example_memory"
    by (simp add: example_state_def)
  have e: "memory_id example_entry = Some ''m1'' \<and> outcome example_entry = Some ''ignored''
           \<and> ''m1'' \<noteq> [] \<and> ''ignored'' \<noteq> []"
    by (simp add: example_entry_def)
  have n: "fb_type example_entry = None"
    by (simp add: example_entry_def)
  from adjust_unrecognized_outcome [OF h, of "''ignored''" 7] e n
  show ?thesis
    using h by (simp add: example_memory_def get0_def zero_stats_def)
qed

subsection \<open>Properties of the decay pass\<close>

definition decayed_confidence ::
  "int \<Rightarrow> real \<Rightarrow> timestamp \<Rightarrow> bool \<Rightarrow> index_entry \<Rightarrow> decay_stats \<Rightarrow> (string \<rightharpoonup> memory) \<Rightarrow> real option" where
  "decayed_confidence dd mc now dry e stats mems =
     map_option (\<lambda>mem. confidence (meta mem))
       ((snd (snd (process_memory dd mc now dry e (stats, mems)))) (ie_id e))"

lemma round_half_even_le: "of_int (round_half_even x) \<le> x + 1/2"
proof -
  define f where "f = \<lfloor>x\<rfloor>"
  have f: "of_int f \<le> x"
    by (simp add: f_def)
  have "round_half_even x = f \<or> (1/2 \<le> x - of_int f \<and> round_half_even x = f + 1)"
    unfolding round_half_even_def Let_def f_def [symmetric] by auto
  then show ?thesis
    using f by auto
qed

lemma round3_le: "round3 x \<le> x + 1/2000"
proof -
  have "of_int (round_half_even (x * 1000)) \<le> x * 1000 + 1/2"
    by (rule round_half_even_le)
  then show ?thesis
    unfolding round3_def by (simp add: field_simps)
qed

lemma decay_factor_le_one:
  assumes "1 \<le> days"
    and "get0 (positive_reinforcement m) \<le> (case access_count m of None \<Rightarrow> 1 | Some n \<Rightarrow> n)"
  shows "decay_factor days m \<le> 1"
proof -
  define total where "total = (case access_count m of None \<Rightarrow> 1 | Some n \<Rightarrow> n)"
  define a :: real where "a = 0.99 ^ nat days"
  have a: "0 \<le> a" "a \<le> 1"
    unfolding a_def by (simp_all add: power_le_one)
  show ?thesis
  proof (cases "total > 0")
    case True
    have "real_of_int (get0 (positive_reinforcement m)) / real_of_int total \<le> 1"
      using True assms(2) by (simp add: total_def [symmetric])
    then have "0.5 + 0.5 * (real_of_int (get0 (positive_reinforcement m)) / real_of_int total) \<le> 1"
      by simp
    then have "a * (0.5 + 0.5 * (real_of_int (get0 (positive_reinforcement m)) / real_of_int total)) \<le> a * 1"
      using a(1) by (rule mult_left_mono)
    then have "a * (0.5 + 0.5 * (real_of_int (get0 (positive_reinforcement m)) / real_of_int total)) \<le> 1"
      using a(2) by simp
    then show ?thesis
      unfolding decay_factor_def Let_def total_def [symmetric] a_def [symmetric]
      using True by simp
  next
    case False
    then show ?thesis
      unfolding decay_factor_def Let_def total_def [symmetric] a_def [symmetric]
      using a(2) by simp
  qed
qed

lemma new_confidence_le:
  assumes "1 \<le> days" "mc \<le> confidence m" "0 \<le> confidence m"
    and "get0 (positive_reinforcement m) \<le> (case access_count m of None \<Rightarrow> 1 | Some n \<Rightarrow> n)"
  shows "new_confidence mc days m \<le> confidence m"
proof -
  have "confidence m * decay_factor days m \<le> confidence m * 1"
    using decay_factor_le_one [OF assms(1,4)] assms(3) by (rule mult_left_mono)
  then show ?thesis
    using assms(2) by (simp add: new_confidence_def)
qed

lemma process_memory_found:
  assumes "mems (ie_id e) = Some mem"
  shows "decayed_confidence dd mc now dry e stats mems =
     Some (let m = meta mem; days = days_since_access dd now m; new = new_confidence mc days m
           in if status m = Some ''archived'' \<or> status m = Some ''superseded'' \<or> days < 1
                 \<or> \<not> \<bar>new - confidence m\<bar> > 0.001 \<or> dry
              then confidence m else round3 new)"
  using assms by (simp add: decayed_confidence_def process_memory_def Let_def)


definition day :: timestamp where
  "day = 86400000000"

definition no_decay_stats :: decay_stats where
  "no_decay_stats = \<lparr>ds_processed = 0, ds_decayed = 0, ds_archived = 0, ds_unchanged = 0\<rparr>"

definition stale_memory :: memory where
  "stale_memory =
     \<lparr>mem_id = ''m2'', mem_type = ''pattern'',
      mem_content = \<lparr>title = Some ''Name tests after behaviour'', description = Some ''Test names'',
                     action = None, examples = []\<rparr>,
      meta = \<lparr>confidence = 0.5, status = Some ''active'', positive_reinforcement = Some 0,
              negative_reinforcement = Some 0, access_count = Some 3,
              last_accessed = Some 0, created_at = Some 0\<rparr>,
      scope_path = None\<rparr>"

definition stale_entry :: index_entry where
  "stale_entry = \<lparr>ie_id = ''m2'', ie_confidence = 0.5, ie_last_accessed = Some 0, ie_access_count = 3\<rparr>"


definition doubtful_state :: state where
  "doubtful_state =
     \<lparr>memories = [''m2'' \<mapsto> stale_memory\<lparr>meta := (meta stale_memory)\<lparr>confidence := 0.35\<rparr>\<rparr>],
      index_global = [stale_entry], index_projects = [],
      feedback_file = None, feedback_processed = None\<rparr>"





lemma decayed_confidence_changed:
  assumes "mems (ie_id e) = Some mem"
    and "status (meta mem) \<noteq> Some ''archived''" "status (meta mem) \<noteq> Some ''superseded''"
    and "days_since_access dd now (meta mem) = d" "1 \<le> d"
    and "new_confidence mc d (meta mem) = n" "\<bar>n - confidence (meta mem)\<bar> > 0.001"
  shows "decayed_confidence dd mc now False e stats mems = Some (round3 n)"
  unfolding process_memory_found [of mems e mem, OF assms(1)] Let_def assms(4) assms(6)
  using assms(2,3,5,7) by simp

lemma process_memory_recent:
  assumes "mems (ie_id e) = Some mem" "days_since_access dd now (meta mem) < 1"
  shows "fst (process_memory dd mc now dry e (stats, mems)) = e"
    and "snd (snd (process_memory dd mc now dry e (stats, mems))) = mems"
  using assms by (simp_all add: process_memory_def Let_def)

lemma decayed_confidence_le:
  assumes "mems (ie_id e) = Some mem"
    and "mc \<le> confidence (meta mem)" "0 \<le> confidence (meta mem)"
    and "get0 (positive_reinforcement (meta mem))
           \<le> (case access_count (meta mem) of None \<Rightarrow> 1 | Some n \<Rightarrow> n)"
  shows "\<exists>c. decayed_confidence dd mc now dry e stats mems = Some c \<and> c \<le> confidence (meta mem)"
proof -
  define days where "days = days_since_access dd now (meta mem)"
  define new where "new = new_confidence mc days (meta mem)"
  have "round3 new \<le> confidence (meta mem)"
    if "1 \<le> days" "\<bar>new - confidence (meta mem)\<bar> > 0.001"
  proof -
    have "new \<le> confidence (meta mem)"
      unfolding new_def using that(1) assms(2-4) by (rule new_confidence_le)
    then have "new + 1/2000 \<le> confidence (meta mem)"
      using that(2) by simp
    then show ?thesis
      using round3_le [of new] by linarith
  qed
  then show ?thesis
    unfolding process_memory_found [of mems e mem, OF assms(1)] Let_def
      days_def [symmetric] new_def [symmetric]
    by auto
qed

text \<open>
  Claim C8, as the code has it. For a record the decay pass finds: when its confidence is
  at least the configured floor and not negative, and its \<^verbatim>\<open>positive_reinforcement\<close> is at
  most its \<^verbatim>\<open>access_count\<close> (1 when absent), the confidence after the pass is at most the
  confidence before, whatever the elapsed days; and when less than one whole day has
  elapsed, the pass leaves the memory files and the index entry as they were.
\<close>

theorem decay_never_raises:
  assumes "mems (ie_id e) = Some mem"
  shows "(mc \<le> confidence (meta mem) \<and> 0 \<le> confidence (meta mem)
          \<and> get0 (positive_reinforcement (meta mem))
               \<le> (case access_count (meta mem) of None \<Rightarrow> 1 | Some n \<Rightarrow> n)
          \<longrightarrow> (\<exists>c. decayed_confidence dd mc now dry e stats mems = Some c
                    \<and> c \<le> confidence (meta mem)))
       \<and> (days_since_access dd now (meta mem) < 1
          \<longrightarrow> fst (process_memory dd mc now dry e (stats, mems)) = e
            \<and> snd (snd (process_memory dd mc now dry e (stats, mems))) = mems)"
  using decayed_confidence_le [of mems e mem mc dd now dry stats]
    process_memory_recent [of mems e mem dd now mc dry stats] assms
  by blast

theorem decay_never_raises_witness:
  "[''m2'' \<mapsto> stale_memory] (ie_id stale_entry) = Some stale_memory
   \<and> (\<exists>c. decayed_confidence 30 0.1 (2 * day) False stale_entry no_decay_stats
              [''m2'' \<mapsto> stale_memory] = Some c \<and> c \<le> 0.5)
   \<and> days_since_access 30 (day - 1) (meta stale_memory) < 1
   \<and> fst (process_memory 30 0.1 (day - 1) False stale_entry
            (no_decay_stats, [''m2'' \<mapsto> stale_memory])) = stale_entry
   \<and> snd (snd (process_memory 30 0.1 (day - 1) False stale_entry
            (no_decay_stats, [''m2'' \<mapsto> stale_memory]))) = [''m2'' \<mapsto> stale_memory]"
proof -
  have h: "[''m2'' \<mapsto> stale_memory] (ie_id stale_entry) = Some stale_memory"
    by (simp add: stale_entry_def)
  have c: "(0.1::real) \<le> confidence (meta stale_memory) \<and> 0 \<le> confidence (meta stale_memory)
           \<and> get0 (positive_reinforcement (meta stale_memory))
               \<le> (case access_count (meta stale_memory) of None \<Rightarrow> 1 | Some n \<Rightarrow> n)
           \<and> confidence (meta stale_memory) = 0.5"
    by (simp add: stale_memory_def get0_def)
  have d: "days_since_access 30 (day - 1) (meta stale_memory) < 1"
    by (simp add: days_since_access_def stale_memory_def day_def)
  from decay_never_raises [of "[''m2'' \<mapsto> stale_memory]" stale_entry stale_memory "0.1" 30
      "2 * day" False no_decay_stats, OF h]
    decay_never_raises [of "[''m2'' \<mapsto> stale_memory]" stale_entry stale_memory "0.1" 30
      "day - 1" False no_decay_stats, OF h]
  show ?thesis
    using h c d by simp
qed

text \<open>
  Without the first condition the claim fails. \<^verbatim>\<open>adjust_confidence\<close> clamps at the constant
  0.1, the decay pass at the configured \<^verbatim>\<open>min_confidence\<close>: a record rejected from 0.35 to 0.15
  is raised to 0.2 (and archived) by a pass one day later under a floor of 0.2.
\<close>

definition rejected_state :: state where
  "rejected_state = snd (adjust_confidence 0 ''m2'' ''rejected'' 0 doubtful_state)"

theorem decay_raises_to_floor_counterexample:
  "map_option (\<lambda>mem. confidence (meta mem)) (memories rejected_state ''m2'') = Some 0.15
   \<and> decayed_confidence 30 0.2 day False stale_entry no_decay_stats (memories rejected_state)
       = Some 0.2
   \<and> \<not> (0.2 :: real) \<le> 0.15"
proof -
  define m where "m = (meta stale_memory)\<lparr>confidence := 0.15,
      negative_reinforcement := Some 1, status := Some ''under_review'',
      last_accessed := Some 0, access_count := Some 4\<rparr>"
  have a: "memories doubtful_state ''m2'' = Some (stale_memory\<lparr>meta := (meta stale_memory)\<lparr>confidence := 0.35\<rparr>\<rparr>)"
    by (simp add: doubtful_state_def)
  have s: "memories rejected_state ''m2'' = Some (stale_memory\<lparr>meta := m\<rparr>)"
    unfolding rejected_state_def adjust_confidence_found(2) [OF a] adjust_meta_rejected
    by (simp add: m_def stale_memory_def get0_def)
  have i: "memories rejected_state (ie_id stale_entry) = Some (stale_memory\<lparr>meta := m\<rparr>)"
    using s by (simp add: stale_entry_def)
  have d: "days_since_access 30 day (meta (stale_memory\<lparr>meta := m\<rparr>)) = 1"
    by (simp add: days_since_access_def m_def day_def)
  have n: "new_confidence 0.2 1 (meta (stale_memory\<lparr>meta := m\<rparr>)) = 0.2"
    by (simp add: new_confidence_def decay_factor_def m_def stale_memory_def get0_def)
  have r: "round3 0.2 = 0.2"
    by (simp add: round3_def round_half_even_def Let_def)
  have "decayed_confidence 30 0.2 day False stale_entry no_decay_stats (memories rejected_state)
       = Some (round3 0.2)"
    by (rule decayed_confidence_changed [of "memories rejected_state" stale_entry
          "stale_memory\<lparr>meta := m\<rparr>", OF i _ _ d _ n]) (simp_all add: m_def)
  then show ?thesis
    using s r by (simp add: m_def)
qed

subsection \<open>Properties of the feedback watermark\<close>

















section \<open>Candidate selector: \<^verbatim>\<open>sync-claude-md.py\<close>\<close>

definition AUTO_PROMOTE_THRESHOLD :: real where
  "AUTO_PROMOTE_THRESHOLD = 0.8"

definition MIN_POSITIVE_RATIO :: real where
  "MIN_POSITIVE_RATIO = 0.7"

text \<open>Modelled from the spec: \<^verbatim>\<open>list_memories\<close> belongs to \<^verbatim>\<open>memory_lib\<close>, which is not among
  the sources. The specification has the selector return records with
  \<open>confidence \<ge> min_confidence\<close> in store iteration order; the argument is the list of the
  scope's records in that order.\<close>

definition list_memories :: "memory list \<Rightarrow> real \<Rightarrow> memory list" where
  "list_memories records min_confidence =
     filter (\<lambda>m. min_confidence \<le> confidence (meta m)) records"

text \<open>Lines 198 to 206 of \<^verbatim>\<open>promote_memories_to_claude_md\<close>.\<close>

definition positive_ratio :: "metadata \<Rightarrow> real" where
  "positive_ratio m =
     (let positive = get0 (positive_reinforcement m);
          negative = get0 (negative_reinforcement m);
          total = positive + negative
      in if total = 0 then 0.5 else real_of_int positive / real_of_int total)"

text \<open>Lines 196 to 209: the loop that fills \<^verbatim>\<open>promoted\<close>.\<close>

fun promoted :: "memory list \<Rightarrow> memory list" where
  "promoted [] = []"
| "promoted (memory # rest) =
     (if MIN_POSITIVE_RATIO \<le> positive_ratio (meta memory) \<and> status (meta memory) = Some ''active''
      then memory # promoted rest else promoted rest)"

definition promotion_candidates :: "memory list \<Rightarrow> memory list" where
  "promotion_candidates records = promoted (list_memories records AUTO_PROMOTE_THRESHOLD)"

lemma promoted_filter:
  "promoted ms = filter (\<lambda>m. MIN_POSITIVE_RATIO \<le> positive_ratio (meta m)
                              \<and> status (meta m) = Some ''active'') ms"
  by (induction ms) simp_all

lemma promotion_candidates_filter:
  "promotion_candidates records =
     filter (\<lambda>m. status (meta m) = Some ''active'' \<and> 0.8 \<le> confidence (meta m)
                  \<and> 0.7 \<le> positive_ratio (meta m)) records"
  unfolding promotion_candidates_def promoted_filter list_memories_def filter_filter
  by (rule filter_cong) (auto simp: AUTO_PROMOTE_THRESHOLD_def MIN_POSITIVE_RATIO_def)

lemma positive_ratio_cases:
  "positive_ratio m =
     (if get0 (positive_reinforcement m) + get0 (negative_reinforcement m) = 0 then 0.5
      else real_of_int (get0 (positive_reinforcement m)) /
           real_of_int (get0 (positive_reinforcement m) + get0 (negative_reinforcement m)))"
  by (simp add: positive_ratio_def Let_def)

text \<open>
  Claim C3. The selector returns, in the order of the store, exactly the records with
  status \<^verbatim>\<open>active\<close>, confidence at least 0.8 and positive ratio at least 0.7, where the ratio
  is \<open>positive / (positive + negative)\<close> and 0.5 when the two counts add up to zero. So a
  record with both counts zero is never selected, and neither is a record whose status is
  not \<^verbatim>\<open>active\<close>, whatever their confidence.
\<close>

theorem promotion_selector:
  "promotion_candidates records =
     filter (\<lambda>m. status (meta m) = Some ''active'' \<and> 0.8 \<le> confidence (meta m)
                  \<and> 0.7 \<le> positive_ratio (meta m)) records
   \<and> (\<forall>m. positive_ratio m =
          (if get0 (positive_reinforcement m) + get0 (negative_reinforcement m) = 0 then 0.5
           else real_of_int (get0 (positive_reinforcement m)) /
                real_of_int (get0 (positive_reinforcement m) + get0 (negative_reinforcement m))))
   \<and> (\<forall>mem. get0 (positive_reinforcement (meta mem)) = 0
             \<and> get0 (negative_reinforcement (meta mem)) = 0
          \<longrightarrow> mem \<notin> set (promotion_candidates records))
   \<and> (\<forall>mem. status (meta mem) \<noteq> Some ''active'' \<longrightarrow> mem \<notin> set (promotion_candidates records))"
proof (intro conjI allI impI)
  show "promotion_candidates records =
     filter (\<lambda>m. status (meta m) = Some ''active'' \<and> 0.8 \<le> confidence (meta m)
                  \<and> 0.7 \<le> positive_ratio (meta m)) records"
    by (rule promotion_candidates_filter)
next
  fix m :: metadata
  show "positive_ratio m =
          (if get0 (positive_reinforcement m) + get0 (negative_reinforcement m) = 0 then 0.5
           else real_of_int (get0 (positive_reinforcement m)) /
                real_of_int (get0 (positive_reinforcement m) + get0 (negative_reinforcement m)))"
    by (rule positive_ratio_cases)
next
  fix mem :: memory
  assume "get0 (positive_reinforcement (meta mem)) = 0
             \<and> get0 (negative_reinforcement (meta mem)) = 0"
  then have "positive_ratio (meta mem) = 0.5"
    by (simp add: positive_ratio_cases)
  then show "mem \<notin> set (promotion_candidates records)"
    by (simp add: promotion_candidates_filter)
next
  fix mem :: memory
  assume "status (meta mem) \<noteq> Some ''active''"
  then show "mem \<notin> set (promotion_candidates records)"
    by (simp add: promotion_candidates_filter)
qed

definition with_meta :: "string \<Rightarrow> real \<Rightarrow> string \<Rightarrow> int \<Rightarrow> int \<Rightarrow> memory" where
  "with_meta i c s p n =
     example_memory\<lparr>mem_id := i,
       meta := (meta example_memory)\<lparr>confidence := c, status := Some s,
                 positive_reinforcement := Some p, negative_reinforcement := Some n\<rparr>\<rparr>"

definition shelf :: "memory list" where
  "shelf = [with_meta ''a'' 0.9 ''active'' 8 1, with_meta ''b'' 0.95 ''active'' 0 0,
            with_meta ''c'' 1 ''archived'' 9 0, with_meta ''d'' 0.75 ''active'' 8 1,
            with_meta ''e'' 0.8 ''active'' 7 3]"

theorem promotion_selector_witness:
  "map mem_id (promotion_candidates shelf) = [''a'', ''e'']
   \<and> positive_ratio (meta (with_meta ''b'' 0.95 ''active'' 0 0)) = 0.5
   \<and> with_meta ''b'' 0.95 ''active'' 0 0 \<notin> set (promotion_candidates shelf)
   \<and> with_meta ''c'' 1 ''archived'' 9 0 \<notin> set (promotion_candidates shelf)"
proof -
  have b: "get0 (positive_reinforcement (meta (with_meta ''b'' 0.95 ''active'' 0 0))) = 0
           \<and> get0 (negative_reinforcement (meta (with_meta ''b'' 0.95 ''active'' 0 0))) = 0"
    by (simp add: with_meta_def get0_def)
  have c: "status (meta (with_meta ''c'' 1 ''archived'' 9 0)) \<noteq> Some ''active''"
    by (simp add: with_meta_def)
  have f: "map mem_id (filter (\<lambda>m. status (meta m) = Some ''active'' \<and> 0.8 \<le> confidence (meta m)
                  \<and> 0.7 \<le> positive_ratio (meta m)) shelf) = [''a'', ''e'']"
    by (simp add: shelf_def with_meta_def positive_ratio_def get0_def)
  from promotion_selector [of shelf]
  show ?thesis
    using b c f by simp
qed

section \<open>Documents: \<^verbatim>\<open>promote-workflow.py\<close>\<close>

subsection \<open>Characters, lines and the regular expressions of the script\<close>

text \<open>The class \<^verbatim>\<open>\w\<close> and \<^verbatim>\<open>str.lower\<close> on code points below 256.\<close>

definition is_word :: "char \<Rightarrow> bool" where
  "is_word c =
     (let n = (of_char c :: nat)
      in (48 \<le> n \<and> n \<le> 57) \<or> (65 \<le> n \<and> n \<le> 90) \<or> n = 95 \<or> (97 \<le> n \<and> n \<le> 122)
         \<or> n = 170 \<or> n = 178 \<or> n = 179 \<or> n = 181 \<or> n = 185 \<or> n = 186
         \<or> (188 \<le> n \<and> n \<le> 190) \<or> (192 \<le> n \<and> n \<le> 214) \<or> (216 \<le> n \<and> n \<le> 246)
         \<or> (248 \<le> n \<and> n \<le> 255))"

definition upper_chars :: string where
  "upper_chars = ''ABCDEFGHIJKLMNOPQRSTUVWXYZ'' @
     [CHR 0xC0, CHR 0xC1, CHR 0xC2, CHR 0xC3, CHR 0xC4, CHR 0xC5, CHR 0xC6, CHR 0xC7,
     CHR 0xC8, CHR 0xC9, CHR 0xCA, CHR 0xCB, CHR 0xCC, CHR 0xCD, CHR 0xCE, CHR 0xCF, CHR
     0xD0, CHR 0xD1, CHR 0xD2, CHR 0xD3, CHR 0xD4, CHR 0xD5, CHR 0xD6, CHR 0xD8, CHR
     0xD9, CHR 0xDA, CHR 0xDB, CHR 0xDC, CHR 0xDD, CHR 0xDE]"

definition lower_chars :: string where
  "lower_chars = ''abcdefghijklmnopqrstuvwxyz'' @
     [CHR 0xE0, CHR 0xE1, CHR 0xE2, CHR 0xE3, CHR 0xE4, CHR 0xE5, CHR 0xE6, CHR 0xE7,
     CHR 0xE8, CHR 0xE9, CHR 0xEA, CHR 0xEB, CHR 0xEC, CHR 0xED, CHR 0xEE, CHR 0xEF, CHR
     0xF0, CHR 0xF1, CHR 0xF2, CHR 0xF3, CHR 0xF4, CHR 0xF5, CHR 0xF6, CHR 0xF8, CHR
     0xF9, CHR 0xFA, CHR 0xFB, CHR 0xFC, CHR 0xFD, CHR 0xFE]"

definition lower_char :: "char \<Rightarrow> char" where
  "lower_char c = (case map_of (zip upper_chars lower_chars) c of Some l \<Rightarrow> l | None \<Rightarrow> c)"

definition py_lower :: "string \<Rightarrow> string" where
  "py_lower s = map lower_char s"

text \<open>\<^verbatim>\<open>s.split('\n')\<close> and \<^verbatim>\<open>'\n'.join(lines)\<close>.\<close>

fun split_lines :: "string \<Rightarrow> string list" where
  "split_lines [] = [[]]"
| "split_lines (c # cs) =
     (if c = CHR ''\<newline>'' then [] # split_lines cs
      else (case split_lines cs of [] \<Rightarrow> [[c]] | l # ls \<Rightarrow> (c # l) # ls))"

fun join_lines :: "string list \<Rightarrow> string" where
  "join_lines [] = []"
| "join_lines [l] = l"
| "join_lines (l # ls) = l @ CHR ''\<newline>'' # join_lines ls"

definition drop_prefix :: "string \<Rightarrow> string \<Rightarrow> string option" where
  "drop_prefix p s = (if take (length p) s = p then Some (drop (length p) s) else None)"

text \<open>The rest of the text after the first occurrence of \<open>pat\<close>.\<close>

fun find_after :: "string \<Rightarrow> string \<Rightarrow> string option" where
  "find_after pat [] = drop_prefix pat []"
| "find_after pat (c # cs) =
     (case drop_prefix pat (c # cs) of Some r \<Rightarrow> Some r | None \<Rightarrow> find_after pat cs)"

text \<open>A match of \<^verbatim>\<open><!--\s*memory-sync:.*?-->\<close> (with \<^verbatim>\<open>re.DOTALL\<close>) at the start of the text:
  the rest after the match.\<close>

definition match_marker :: "string \<Rightarrow> string option" where
  "match_marker s =
     (case drop_prefix ''<!--'' s of
        None \<Rightarrow> None
      | Some r \<Rightarrow>
          (case drop_prefix ''memory-sync:'' (dropWhile is_space r) of
             None \<Rightarrow> None
           | Some t \<Rightarrow> find_after ''-->'' t))"

lemma drop_prefix_length: "drop_prefix p s = Some r \<Longrightarrow> length r + length p = length s"
  by (auto simp: drop_prefix_def split: if_splits)
     (metis add.commute le_add_diff_inverse length_take min.absorb_iff2 nat_le_linear take_all)

lemma find_after_length: "find_after p s = Some r \<Longrightarrow> length r + length p \<le> length s"
proof (induction s)
  case Nil
  then show ?case by (auto dest: drop_prefix_length)
next
  case (Cons c cs)
  then show ?case
    by (auto split: option.splits dest: drop_prefix_length)
qed

lemma match_marker_shorter: "match_marker s = Some r \<Longrightarrow> length r < length s"
proof -
  assume a: "match_marker s = Some r"
  then obtain r1 t where r1: "drop_prefix ''<!--'' s = Some r1"
    and t: "drop_prefix ''memory-sync:'' (dropWhile is_space r1) = Some t"
    and f: "find_after ''-->'' t = Some r"
    by (auto simp: match_marker_def split: option.splits)
  have "length r \<le> length t"
    using find_after_length [OF f] by simp
  also have "\<dots> \<le> length (dropWhile is_space r1)"
    using drop_prefix_length [OF t] by simp
  also have "\<dots> \<le> length r1"
    by (rule length_dropWhile_le)
  also have "\<dots> < length s"
    using drop_prefix_length [OF r1] by simp
  finally show ?thesis .
qed

text \<open>\<^verbatim>\<open>re.sub(r'<!--\s*memory-sync:.*?-->', '', content, flags=re.DOTALL)\<close>, and whether the
  expression matches anywhere.\<close>

function remove_markers :: "string \<Rightarrow> string" where
  "remove_markers [] = []"
| "remove_markers (c # cs) =
     (case match_marker (c # cs) of
        Some rest \<Rightarrow> remove_markers rest
      | None \<Rightarrow> c # remove_markers cs)"
  by pat_completeness auto
termination
  by (relation "measure length") (auto dest: match_marker_shorter)

fun has_marker :: "string \<Rightarrow> bool" where
  "has_marker [] = False"
| "has_marker (c # cs) = (match_marker (c # cs) \<noteq> None \<or> has_marker cs)"

subsection \<open>\<^verbatim>\<open>parse_claude_md_sections\<close>\<close>

record doc_section =
  sec_title :: string
  sec_content :: string
  sec_level :: nat

text \<open>\<^verbatim>\<open>re.match(r'^(#{2,3})\s+(.+)$', line)\<close> on a line without a line break: the length of the
  first group and the second group. Two or three hashes (a fourth hash is no white space),
  white space, and the rest of the line; when the line ends with the white space and
  there are two characters of it or more, the last of them is the second group.\<close>

definition match_header :: "string \<Rightarrow> (nat \<times> string) option" where
  "match_header line =
     (let hashes = takeWhile (\<lambda>c. c = CHR ''#'') line;
          r = dropWhile (\<lambda>c. c = CHR ''#'') line;
          w = takeWhile is_space r;
          t = dropWhile is_space r
      in if (length hashes = 2 \<or> length hashes = 3) \<and> w \<noteq> []
         then (if t \<noteq> [] then Some (length hashes, t)
               else if 2 \<le> length w then Some (length hashes, [last w])
               else None)
         else None)"

text \<open>The section the loop saves when it meets a header or the end, if \<^verbatim>\<open>current_section\<close> is
  neither \<^verbatim>\<open>None\<close> nor empty. The level is the one of the header just met (line 139), or 2
  for the last section.\<close>

definition save_section :: "string option \<Rightarrow> string list \<Rightarrow> nat \<Rightarrow> doc_section list" where
  "save_section current_section current_content lvl =
     (if truthy current_section
      then [\<lparr>sec_title = get_str current_section [],
             sec_content = strip (join_lines current_content),
             sec_level = lvl\<rparr>]
      else [])"

fun parse_lines :: "string option \<Rightarrow> string list \<Rightarrow> string list \<Rightarrow> doc_section list" where
  "parse_lines current_section current_content [] = save_section current_section current_content 2"
| "parse_lines current_section current_content (line # ls) =
     (case match_header line of
        Some (lvl, t) \<Rightarrow>
          save_section current_section current_content lvl @ parse_lines (Some (strip t)) [] ls
      | None \<Rightarrow> parse_lines current_section (current_content @ [line]) ls)"

definition parse_claude_md_sections :: "string \<Rightarrow> doc_section list" where
  "parse_claude_md_sections content = parse_lines None [] (split_lines (remove_markers content))"

subsection \<open>\<^verbatim>\<open>section_exists\<close>, \<^verbatim>\<open>insert_into_section\<close>, \<^verbatim>\<open>insert_after_section\<close>, \<^verbatim>\<open>create_section\<close>\<close>

text \<open>The texts left after one or more characters of white space (\<^verbatim>\<open>\s+\<close>), longest first
  or not: only whether one of them goes on with the name matters.\<close>

fun ws_plus :: "string \<Rightarrow> string list" where
  "ws_plus [] = []"
| "ws_plus (c # cs) = (if is_space c then cs # ws_plus cs else [])"

text \<open>\<^verbatim>\<open>re.match(prefix + r'\s+' + re.escape(name) + r'\s*$', line)\<close> on a line without a line
  break: after the name only white space.\<close>

definition is_heading_line :: "string \<Rightarrow> string \<Rightarrow> string \<Rightarrow> bool" where
  "is_heading_line prefix name line =
     (case drop_prefix prefix line of
        None \<Rightarrow> False
      | Some r \<Rightarrow>
          list_ex (\<lambda>t. case drop_prefix name t of
                          None \<Rightarrow> False
                        | Some u \<Rightarrow> list_all is_space u) (ws_plus r))"

text \<open>The same expression under \<^verbatim>\<open>re.MULTILINE\<close> at a position of the whole text: the white space
  may run over line breaks, and \<^verbatim>\<open>$\<close> stands before a line break or at the end.\<close>

definition heading_here :: "string \<Rightarrow> string \<Rightarrow> bool" where
  "heading_here name s =
     (case drop_prefix ''##'' s of
        None \<Rightarrow> False
      | Some r \<Rightarrow>
          list_ex (\<lambda>t. case drop_prefix name t of
                          None \<Rightarrow> False
                        | Some u \<Rightarrow>
                            (case dropWhile (\<lambda>c. is_space c \<and> c \<noteq> CHR ''\<newline>'') u of
                               [] \<Rightarrow> True
                             | c # _ \<Rightarrow> c = CHR ''\<newline>'')) (ws_plus r))"

text \<open>\<^verbatim>\<open>re.search\<close> tries every position; \<^verbatim>\<open>^\<close> holds at the start and after a line break.\<close>

fun search_heading :: "string \<Rightarrow> bool \<Rightarrow> string \<Rightarrow> bool" where
  "search_heading name bol [] = (bol \<and> heading_here name [])"
| "search_heading name bol (c # cs) =
     ((bol \<and> heading_here name (c # cs)) \<or> search_heading name (c = CHR ''\<newline>'') cs)"

definition section_exists :: "string \<Rightarrow> string \<Rightarrow> bool" where
  "section_exists content section_name = search_heading section_name True content"

text \<open>\<^verbatim>\<open>re.match(r'^(#{2,})\s+', line)\<close>: the number of hashes, two or more, before white space.\<close>

definition heading_level :: "string \<Rightarrow> nat option" where
  "heading_level line =
     (let hashes = takeWhile (\<lambda>c. c = CHR ''#'') line;
          r = dropWhile (\<lambda>c. c = CHR ''#'') line
      in if 2 \<le> length hashes \<and> r \<noteq> [] \<and> is_space (hd r) then Some (length hashes) else None)"

definition leaves_section :: "string \<Rightarrow> nat \<Rightarrow> bool" where
  "leaves_section line section_level =
     (case heading_level line of None \<Rightarrow> False | Some l \<Rightarrow> l \<le> section_level)"

text \<open>The loop of \<^verbatim>\<open>insert_into_section\<close> (lines 255 to 273) with its three variables, and the
  lines it appends after the loop.\<close>

fun insert_into_lines :: "string \<Rightarrow> string \<Rightarrow> bool \<Rightarrow> bool \<Rightarrow> string list \<Rightarrow> string list" where
  "insert_into_lines section_name entry in_target inserted [] =
     (if in_target \<and> \<not> inserted then [[], entry] else [])"
| "insert_into_lines section_name entry in_target inserted (line # ls) =
     (if is_heading_line ''##'' section_name line
      then line # insert_into_lines section_name entry True inserted ls
      else if in_target \<and> \<not> inserted \<and> leaves_section line 2
      then entry # [] # line # insert_into_lines section_name entry False True ls
      else line # insert_into_lines section_name entry in_target inserted ls)"

definition insert_into_section :: "string \<Rightarrow> string \<Rightarrow> string \<Rightarrow> string" where
  "insert_into_section content section_name entry =
     join_lines (insert_into_lines section_name entry False False (split_lines content))"

text \<open>\<^verbatim>\<open>insert_after_section\<close> builds its header expression with
  \<^verbatim>\<open>rf'^(#{2,})\s+{re.escape(section_name)}\s*$'\<close>. In an f-string \<^verbatim>\<open>{2,}\<close> is a replacement field:
  it formats the tuple \<^verbatim>\<open>(2,)\<close>, and the expression is \<^verbatim>\<open>^(#(2,))\s+name\s*$\<close>, which matches a
  line that starts with the three characters \<^verbatim>\<open>#2,\<close>. The first group, whose length is the
  section level, is those three characters.\<close>

fun insert_after_lines :: "string \<Rightarrow> string \<Rightarrow> bool \<Rightarrow> nat \<Rightarrow> string list \<Rightarrow> string list" where
  "insert_after_lines section_name new_text in_section section_level [] =
     (if in_section then [new_text] else [])"
| "insert_after_lines section_name new_text in_section section_level (line # ls) =
     (if is_heading_line ''#2,'' section_name line
      then line # insert_after_lines section_name new_text True 3 ls
      else if in_section \<and> leaves_section line section_level
      then new_text # [] # line # insert_after_lines section_name new_text False section_level ls
      else line # insert_after_lines section_name new_text in_section section_level ls)"

definition insert_after_section :: "string \<Rightarrow> string \<Rightarrow> string \<Rightarrow> string" where
  "insert_after_section content section_name new_text =
     join_lines (insert_after_lines section_name new_text False 2 (split_lines content))"

definition type_order :: "string list" where
  "type_order = [''Preferences'', ''Patterns & Conventions'', ''Workflows'',
                 ''Project-Specific'', ''Learned Corrections'', ''Avoid'']"

definition append_section :: "string \<Rightarrow> string \<Rightarrow> string \<Rightarrow> string" where
  "append_section content section_name entry =
     rstrip content @ ''\<newline>\<newline>## '' @ section_name @ ''\<newline>\<newline>'' @ entry @ ''\<newline>''"

text \<open>The loop \<^verbatim>\<open>for i in range(idx - 1, -1, -1)\<close> over the canonical titles before the new
  one, nearest first: the argument is that list of titles.\<close>

fun after_previous :: "string \<Rightarrow> string \<Rightarrow> string \<Rightarrow> string list \<Rightarrow> string option" where
  "after_previous content section_name entry [] = None"
| "after_previous content section_name entry (prev_section # ps) =
     (if section_exists content prev_section
      then Some (insert_after_section content prev_section
                   (''\<newline>## '' @ section_name @ ''\<newline>\<newline>'' @ entry))
      else after_previous content section_name entry ps)"

definition create_section :: "string \<Rightarrow> string \<Rightarrow> string \<Rightarrow> string" where
  "create_section content section_name entry =
     (if parse_claude_md_sections content = [] then append_section content section_name entry
      else if section_name \<in> set type_order
      then (case after_previous content section_name entry
                   (rev (takeWhile (\<lambda>t. t \<noteq> section_name) type_order)) of
              Some new_content \<Rightarrow> new_content
            | None \<Rightarrow> append_section content section_name entry)
      else append_section content section_name entry)"

subsection \<open>\<^verbatim>\<open>extract_keywords\<close>, \<^verbatim>\<open>extract_memory_titles\<close>, \<^verbatim>\<open>check_duplicate\<close>\<close>

text \<open>The maximal runs of word characters of a text, in order. Both \<^verbatim>\<open>\b[a-z]{3,}\b\<close> and
  \<^verbatim>\<open>\b\w{4,}\b\<close> match whole runs only: a word boundary stands at neither end of a proper
  part of a run.\<close>

function word_runs :: "string \<Rightarrow> string list" where
  "word_runs [] = []"
| "word_runs (c # cs) =
     (if is_word c then (c # takeWhile is_word cs) # word_runs (dropWhile is_word cs)
      else word_runs cs)"
  by pat_completeness auto
termination
  by (relation "measure length") (auto simp: less_Suc_eq_le length_dropWhile_le)










section \<open>Import engine: \<^verbatim>\<open>sync-claude-md.py\<close>\<close>

text \<open>Lines 334 and 335 of \<^verbatim>\<open>import_claude_md_to_memories\<close>:
  \<^verbatim>\<open>words = re.findall(r'\b\w{4,}\b', rule_lower)\<close> and \<^verbatim>\<open>keywords = list(set(words))[:5]\<close>.
  A Python set of strings is enumerated in the order of its hash table, which the language
  leaves open and which string hashing changes from one run to the next. The enumeration
  is the parameter \<open>set_order\<close>; what is known of it is \<open>iterates_set\<close>: it lists every
  element of the set once.\<close>

definition findall_words4 :: "string \<Rightarrow> string list" where
  "findall_words4 rule_lower = filter (\<lambda>w. 4 \<le> length w) (word_runs rule_lower)"

definition iterates_set :: "(string list \<Rightarrow> string list) \<Rightarrow> bool" where
  "iterates_set set_order = (\<forall>ws. distinct (set_order ws) \<and> set (set_order ws) = set ws)"

definition trigger_keywords :: "(string list \<Rightarrow> string list) \<Rightarrow> string \<Rightarrow> string list" where
  "trigger_keywords set_order rule = take 5 (set_order (findall_words4 (py_lower rule)))"

subsection \<open>Properties of the document model\<close>

lemma split_lines_not_Nil: "split_lines s \<noteq> []"
  by (induction s) (auto split: list.splits)

lemma join_lines_Cons: "ls \<noteq> [] \<Longrightarrow> join_lines (l # ls) = l @ CHR ''\<newline>'' # join_lines ls"
  by (cases ls) simp_all

lemma join_lines_push: "join_lines ((c # l) # ls) = c # join_lines (l # ls)"
  by (cases ls) simp_all

lemma join_split_lines: "join_lines (split_lines s) = s"
proof (induction s)
  case Nil
  then show ?case by simp
next
  case (Cons c cs)
  show ?case
  proof (cases "c = CHR ''\<newline>''")
    case True
    then show ?thesis
      using Cons split_lines_not_Nil [of cs] by (simp add: join_lines_Cons)
  next
    case False
    obtain l ls where s: "split_lines cs = l # ls"
      using split_lines_not_Nil [of cs] by (cases "split_lines cs") auto
    show ?thesis
      using False Cons by (simp add: s join_lines_push)
  qed
qed

lemma remove_markers_none: "\<not> has_marker s \<Longrightarrow> remove_markers s = s"
  by (induction s) auto

lemma insert_into_lines_none:
  "\<not> list_ex (is_heading_line ''##'' section_name) ls \<Longrightarrow>
   insert_into_lines section_name entry False inserted ls = ls"
  by (induction ls) auto

lemma insert_after_lines_none:
  "\<not> list_ex (is_heading_line ''#2,'' section_name) ls \<Longrightarrow>
   insert_after_lines section_name new_text False lvl ls = ls"
  by (induction ls) auto

text \<open>
  Claim C4, as the code has it. The script has no function that writes a parsed document
  back, and \<^verbatim>\<open>parse_claude_md_sections\<close> keeps too little for one. What it does byte for byte:
  for a document without memory-sync markers the parser's marker removal returns the
  input, and the line list that both the parser and the merge functions work on joins
  back to the input; \<^verbatim>\<open>insert_into_section\<close> returns a document unchanged when none of its
  lines is the heading of the target section.
\<close>

theorem untouched_document_round_trip:
  assumes "\<not> has_marker doc"
  shows "remove_markers doc = doc
       \<and> join_lines (split_lines (remove_markers doc)) = doc
       \<and> (\<not> list_ex (is_heading_line ''##'' section_name) (split_lines doc)
            \<longrightarrow> insert_into_section doc section_name entry = doc)"
  using assms
  by (simp add: remove_markers_none join_split_lines insert_into_section_def
        insert_into_lines_none)

definition notes_document :: string where
  "notes_document = ''# Notes\<newline>keep me\<newline>## Style\<newline>- use tabs\<newline>''"

theorem untouched_document_round_trip_witness:
  "\<not> has_marker notes_document
   \<and> join_lines (split_lines (remove_markers notes_document)) = notes_document
   \<and> \<not> list_ex (is_heading_line ''##'' ''Workflows'') (split_lines notes_document)
   \<and> insert_into_section notes_document ''Workflows'' ''- **Review**'' = notes_document"
proof -
  have m: "\<not> has_marker notes_document"
    by code_simp
  have h: "\<not> list_ex (is_heading_line ''##'' ''Workflows'') (split_lines notes_document)"
    by code_simp
  from untouched_document_round_trip [OF m, of "''Workflows''" "''- **Review**''"]
  show ?thesis
    using m h by blast
qed

text \<open>
  The claim as the specification words it asks for a serializer of the parse result. The
  parser drops the text before the first heading and the blank lines around a section's
  content: two different documents without markers have the same parse result, so no
  function of the parse result returns both.
\<close>

theorem parse_not_injective_counterexample:
  "\<not> has_marker notes_document
   \<and> \<not> has_marker ''## Style\<newline>\<newline>- use tabs''
   \<and> notes_document \<noteq> ''## Style\<newline>\<newline>- use tabs''
   \<and> parse_claude_md_sections notes_document =
       [\<lparr>sec_title = ''Style'', sec_content = ''- use tabs'', sec_level = 2\<rparr>]
   \<and> parse_claude_md_sections ''## Style\<newline>\<newline>- use tabs'' =
       [\<lparr>sec_title = ''Style'', sec_content = ''- use tabs'', sec_level = 2\<rparr>]
   \<and> \<not> (\<exists>serialize. serialize (parse_claude_md_sections notes_document) = notes_document
          \<and> serialize (parse_claude_md_sections ''## Style\<newline>\<newline>- use tabs'')
              = ''## Style\<newline>\<newline>- use tabs'')"
proof -
  have a: "\<not> has_marker notes_document" "\<not> has_marker ''## Style\<newline>\<newline>- use tabs''"
    by code_simp+
  have d: "notes_document \<noteq> ''## Style\<newline>\<newline>- use tabs''"
    by (simp add: notes_document_def)
  have p: "parse_claude_md_sections notes_document =
       [\<lparr>sec_title = ''Style'', sec_content = ''- use tabs'', sec_level = 2\<rparr>]"
    by code_simp
  have q: "parse_claude_md_sections ''## Style\<newline>\<newline>- use tabs'' =
       [\<lparr>sec_title = ''Style'', sec_content = ''- use tabs'', sec_level = 2\<rparr>]"
    by code_simp
  have "\<not> (\<exists>serialize. serialize (parse_claude_md_sections notes_document) = notes_document
          \<and> serialize (parse_claude_md_sections ''## Style\<newline>\<newline>- use tabs'')
              = ''## Style\<newline>\<newline>- use tabs'')"
    unfolding p q using d by auto
  then show ?thesis
    using a d p q by blast
qed

subsection \<open>\<^verbatim>\<open>format_memory_entry\<close> and \<^verbatim>\<open>add_to_claude_md\<close>\<close>

text \<open>\<^verbatim>\<open>content['title']\<close> and \<^verbatim>\<open>content['description']\<close> raise \<^verbatim>\<open>KeyError\<close> when the key is absent:
  the result is \<open>None\<close> then.\<close>

definition format_memory_entry :: "memory \<Rightarrow> string option" where
  "format_memory_entry mem =
     (let c = mem_content mem
      in case title c of
           None \<Rightarrow> None
         | Some t \<Rightarrow>
             (case description c of
                None \<Rightarrow> None
              | Some d \<Rightarrow>
                  Some (join_lines
                    ([''- **'' @ t @ ''**'', ''  - '' @ d]
                     @ (if truthy (action c) then [''  - '' @ get_str (action c) []] else [])
                     @ map (\<lambda>example. ''  - Example: `'' @ example @ ''`'') (take 3 (examples c))))))"

definition section_map :: "string \<Rightarrow> string" where
  "section_map t =
     (if t = ''preference'' then ''Preferences''
      else if t = ''pattern'' then ''Patterns & Conventions''
      else if t = ''workflow'' then ''Workflows''
      else if t = ''project'' then ''Project-Specific''
      else if t = ''correction'' then ''Learned Corrections''
      else if t = ''negative'' then ''Avoid''
      else ''General'')"

text \<open>The new content \<^verbatim>\<open>add_to_claude_md\<close> writes for a file with the given content (a file
  that does not exist is created with the content \<^verbatim>\<open># CLAUDE.md\<close> and two line breaks first).\<close>

definition add_to_claude_md :: "memory \<Rightarrow> string \<Rightarrow> string option" where
  "add_to_claude_md mem content =
     (let section_name = section_map (mem_type mem)
      in case format_memory_entry mem of
           None \<Rightarrow> None
         | Some memory_entry \<Rightarrow>
             Some (if section_exists content section_name
                   then insert_into_section content section_name memory_entry
                   else create_section content section_name memory_entry))"

subsection \<open>Properties of \<^verbatim>\<open>create_section\<close>\<close>

lemma is_heading_line_prefix: "is_heading_line p n l \<Longrightarrow> take (length p) l = p"
  by (auto simp: is_heading_line_def drop_prefix_def split: option.splits if_splits)

lemma insert_after_section_unmatched:
  assumes "\<forall>l \<in> set (split_lines content). take 3 l \<noteq> ''#2,''"
  shows "insert_after_section content section_name new_text = content"
proof -
  have "take 3 l = ''#2,''" if "is_heading_line ''#2,'' section_name l" for l
    using is_heading_line_prefix [OF that] by (simp add: numeral_3_eq_3)
  then have "\<not> list_ex (is_heading_line ''#2,'' section_name) (split_lines content)"
    using assms unfolding list_ex_iff by blast
  then show ?thesis
    by (simp add: insert_after_section_def insert_after_lines_none join_split_lines)
qed

lemma after_previous_found:
  assumes "\<exists>p \<in> set ps. section_exists content p"
  shows "\<exists>p \<in> set ps. after_previous content section_name entry ps =
           Some (insert_after_section content p
                   (''\<newline>## '' @ section_name @ ''\<newline>\<newline>'' @ entry))"
  using assms by (induction ps) auto

lemma after_previous_none:
  assumes "\<forall>p \<in> set ps. \<not> section_exists content p"
  shows "after_previous content section_name entry ps = None"
  using assms by (induction ps) auto

text \<open>What the code does when an earlier canonical section exists: unless a line of the
  document starts with \<^verbatim>\<open>#2,\<close>, the document comes back unchanged, without the new section
  and without the entry.\<close>

lemma create_section_after_previous:
  assumes "parse_claude_md_sections content \<noteq> []" "section_name \<in> set type_order"
    and "\<exists>p \<in> set (takeWhile (\<lambda>t. t \<noteq> section_name) type_order). section_exists content p"
    and "\<forall>l \<in> set (split_lines content). take 3 l \<noteq> ''#2,''"
  shows "create_section content section_name entry = content"
proof -
  have "\<exists>p \<in> set (rev (takeWhile (\<lambda>t. t \<noteq> section_name) type_order)). section_exists content p"
    using assms(3) by simp
  from after_previous_found [OF this, of section_name entry]
  obtain p where "after_previous content section_name entry
       (rev (takeWhile (\<lambda>t. t \<noteq> section_name) type_order)) =
     Some (insert_after_section content p (''\<newline>## '' @ section_name @ ''\<newline>\<newline>'' @ entry))"
    by blast
  then show ?thesis
    using assms(1,2) insert_after_section_unmatched [OF assms(4)]
    by (simp add: create_section_def)
qed

text \<open>What the code does otherwise: the new section goes to the end of the document.\<close>

lemma create_section_appends:
  assumes "section_name \<notin> set type_order
           \<or> (\<forall>p \<in> set (takeWhile (\<lambda>t. t \<noteq> section_name) type_order). \<not> section_exists content p)"
  shows "create_section content section_name entry =
           rstrip content @ ''\<newline>\<newline>## '' @ section_name @ ''\<newline>\<newline>'' @ entry @ ''\<newline>''"
proof (cases "section_name \<in> set type_order")
  case True
  then have "\<forall>p \<in> set (rev (takeWhile (\<lambda>t. t \<noteq> section_name) type_order)). \<not> section_exists content p"
    using assms by simp
  from after_previous_none [OF this, of section_name entry] show ?thesis
    by (simp add: create_section_def append_section_def)
next
  case False
  then show ?thesis
    by (simp add: create_section_def append_section_def)
qed

definition workflow_memory :: memory where
  "workflow_memory =
     example_memory\<lparr>mem_id := ''m3'', mem_type := ''workflow'',
       mem_content := \<lparr>title = Some ''Run tests before commit'',
                       description = Some ''Run the suite first'', action = None, examples = []\<rparr>\<rparr>"

definition preferences_document :: string where
  "preferences_document =
     ''# CLAUDE.md\<newline>\<newline>## Preferences\<newline>\<newline>- **Use tabs**\<newline>  - Indent with tabs\<newline>''"

definition patterns_document :: string where
  "patterns_document =
     ''# CLAUDE.md\<newline>\<newline>## Patterns & Conventions\<newline>\<newline>- **Name tests**\<newline>  - After behaviour\<newline>''"

text \<open>
  Claim C6 at a failing input. A workflow record goes to the section \<^verbatim>\<open>Workflows\<close>. The
  document has no such section and has the earlier canonical section \<^verbatim>\<open>Preferences\<close>, so
  the new section should follow that one. \<^verbatim>\<open>add_to_claude_md\<close> computes the document
  unchanged: no line of it matches the header expression of \<^verbatim>\<open>insert_after_section\<close>.
\<close>

theorem create_section_loses_entry:
  "section_map (mem_type workflow_memory) = ''Workflows''
   \<and> \<not> section_exists preferences_document ''Workflows''
   \<and> section_exists preferences_document ''Preferences''
   \<and> format_memory_entry workflow_memory
       = Some ''- **Run tests before commit**\<newline>  - Run the suite first''
   \<and> create_section preferences_document ''Workflows''
        ''- **Run tests before commit**\<newline>  - Run the suite first'' = preferences_document
   \<and> add_to_claude_md workflow_memory preferences_document = Some preferences_document"
  by code_simp

text \<open>The scenario of the claim: a preference record and a document with the section
  \<^verbatim>\<open>Patterns & Conventions\<close> only. \<^verbatim>\<open>Preferences\<close> is first in the canonical order, and the
  new section goes to the end.\<close>

lemma preference_section_appended:
  "add_to_claude_md (workflow_memory\<lparr>mem_type := ''preference''\<rparr>) patterns_document =
     Some (''# CLAUDE.md\<newline>\<newline>## Patterns & Conventions\<newline>\<newline>- **Name tests**\<newline>  - After behaviour''
           @ ''\<newline>\<newline>## Preferences\<newline>\<newline>- **Run tests before commit**\<newline>  - Run the suite first\<newline>'')"
  by code_simp

subsection \<open>Properties of \<^verbatim>\<open>check_duplicate\<close>\<close>

text \<open>The duplicate status in the words of the specification: the Jaccard similarity of
  two keyword sets, and the first existing title above the threshold.\<close>

definition jaccard :: "string set \<Rightarrow> string set \<Rightarrow> real" where
  "jaccard A B = real (card (A \<inter> B)) / real (card (A \<union> B))"


lemma jaccard_empty [simp]: "jaccard {} B = 0" "jaccard A {} = 0"
  by (simp_all add: jaccard_def)












subsection \<open>Properties of the trigger keywords\<close>

text \<open>The keywords in the words of the specification: the first five distinct words of
  four characters or more, in the order in which they occur.\<close>

fun distinct_in_order :: "string list \<Rightarrow> string list \<Rightarrow> string list" where
  "distinct_in_order seen [] = []"
| "distinct_in_order seen (w # ws) =
     (if w \<in> set seen then distinct_in_order seen ws else w # distinct_in_order (w # seen) ws)"

definition first_five_distinct :: "string \<Rightarrow> string list" where
  "first_five_distinct rule = take 5 (distinct_in_order [] (findall_words4 (py_lower rule)))"

lemma set_distinct_in_order: "set (distinct_in_order seen ws) = set ws - set seen"
  by (induction ws arbitrary: seen) auto

lemma distinct_distinct_in_order: "distinct (distinct_in_order seen ws)"
  by (induction ws arbitrary: seen) (auto simp: set_distinct_in_order)

lemma first_five_all:
  assumes "card (set (findall_words4 (py_lower rule))) \<le> 5"
  shows "set (first_five_distinct rule) = set (findall_words4 (py_lower rule))"
proof -
  define l where "l = distinct_in_order [] (findall_words4 (py_lower rule))"
  have s: "set l = set (findall_words4 (py_lower rule))"
    by (simp add: l_def set_distinct_in_order)
  have "length l = card (set l)"
    unfolding l_def using distinct_distinct_in_order by (simp add: distinct_card)
  then have "length l \<le> 5"
    using assms s by simp
  then show ?thesis
    using s by (simp add: first_five_distinct_def l_def [symmetric])
qed

lemma trigger_keywords_props:
  assumes "iterates_set set_order"
  shows "distinct (trigger_keywords set_order rule)"
    and "set (trigger_keywords set_order rule) \<subseteq> set (findall_words4 (py_lower rule))"
    and "length (trigger_keywords set_order rule) = min 5 (card (set (findall_words4 (py_lower rule))))"
    and "card (set (findall_words4 (py_lower rule))) \<le> 5 \<Longrightarrow>
         set (trigger_keywords set_order rule) = set (findall_words4 (py_lower rule))"
proof -
  define ws where "ws = findall_words4 (py_lower rule)"
  define l where "l = set_order ws"
  have d: "distinct l" and s: "set l = set ws"
    using assms by (simp_all add: iterates_set_def l_def)
  have len: "length l = card (set ws)"
    using d s by (metis distinct_card)
  have k: "trigger_keywords set_order rule = take 5 l"
    by (simp add: trigger_keywords_def l_def ws_def)
  show "distinct (trigger_keywords set_order rule)"
    using d by (simp add: k)
  show "set (trigger_keywords set_order rule) \<subseteq> set (findall_words4 (py_lower rule))"
    using set_take_subset [of 5 l] s by (simp add: k ws_def)
  show "length (trigger_keywords set_order rule) = min 5 (card (set (findall_words4 (py_lower rule))))"
    using len by (simp add: k ws_def min.commute)
  show "set (trigger_keywords set_order rule) = set (findall_words4 (py_lower rule))"
    if "card (set (findall_words4 (py_lower rule))) \<le> 5"
    using that len s by (simp add: k ws_def)
qed

lemma findall_words4_length: "w \<in> set (findall_words4 t) \<Longrightarrow> 4 \<le> length w"
  by (simp add: findall_words4_def)

text \<open>
  Claim C7, as the code has it. Whatever order Python enumerates the set of words in, the
  trigger keywords of an imported bullet are distinct words of four characters or more of
  the lower-cased bullet text: five of them when the text has five or more distinct such
  words, and all of them otherwise, in which case they are the words the specification
  names, in some order. Which five, and in which order, is the set's enumeration order.
\<close>

theorem trigger_keywords_distinct_words:
  assumes "iterates_set set_order"
  shows "(let ws = findall_words4 (py_lower rule);
              ks = trigger_keywords set_order rule
          in distinct ks \<and> set ks \<subseteq> set ws \<and> (\<forall>w \<in> set ks. 4 \<le> length w)
           \<and> length ks = min 5 (card (set ws))
           \<and> (card (set ws) \<le> 5 \<longrightarrow> set ks = set ws \<and> set ks = set (first_five_distinct rule)))"
  unfolding Let_def
  using trigger_keywords_props [OF assms, of rule] first_five_all [of rule]
    findall_words4_length [of _ "py_lower rule"]
  by (auto simp del: set_take_subset)

lemma iterates_set_remdups: "iterates_set remdups"
  by (simp add: iterates_set_def)

lemma iterates_set_rev_remdups: "iterates_set (\<lambda>ws. rev (remdups ws))"
  by (simp add: iterates_set_def)

theorem trigger_keywords_distinct_words_witness:
  "iterates_set remdups
   \<and> findall_words4 (py_lower ''Run the tests, then run Lint'') = [''tests'', ''then'', ''lint'']
   \<and> trigger_keywords remdups ''Run the tests, then run Lint'' = [''tests'', ''then'', ''lint'']
   \<and> card (set (findall_words4 (py_lower ''Run the tests, then run Lint''))) \<le> 5
   \<and> set (trigger_keywords remdups ''Run the tests, then run Lint'')
       = set (first_five_distinct ''Run the tests, then run Lint'')"
proof -
  have w: "findall_words4 (py_lower ''Run the tests, then run Lint'') = [''tests'', ''then'', ''lint'']"
    by code_simp
  have k: "trigger_keywords remdups ''Run the tests, then run Lint'' = [''tests'', ''then'', ''lint'']"
    unfolding trigger_keywords_def w by simp
  have c: "card (set (findall_words4 (py_lower ''Run the tests, then run Lint''))) \<le> 5"
    unfolding w by (simp add: card_insert_if)
  from trigger_keywords_distinct_words [OF iterates_set_remdups, of "''Run the tests, then run Lint''"]
  have "set (trigger_keywords remdups ''Run the tests, then run Lint'')
       = set (first_five_distinct ''Run the tests, then run Lint'')"
    unfolding Let_def using c by blast
  then show ?thesis
    using iterates_set_remdups w k c by blast
qed

text \<open>
  The claim as the specification words it fixes the keywords to the first five distinct
  words in order of occurrence. The code takes the first five of \<^verbatim>\<open>list(set(words))\<close>: under an
  enumeration that runs from the last word to the first, a bullet with six distinct words
  gets the last five, in reverse.
\<close>

theorem trigger_keywords_order_counterexample:
  "iterates_set (\<lambda>ws. rev (remdups ws))
   \<and> first_five_distinct ''Always check types before every commit''
       = [''always'', ''check'', ''types'', ''before'', ''every'']
   \<and> trigger_keywords (\<lambda>ws. rev (remdups ws)) ''Always check types before every commit''
       = [''commit'', ''every'', ''before'', ''types'', ''check'']
   \<and> trigger_keywords (\<lambda>ws. rev (remdups ws)) ''Always check types before every commit''
       \<noteq> first_five_distinct ''Always check types before every commit''"
proof -
  have w: "findall_words4 (py_lower ''Always check types before every commit'')
           = [''always'', ''check'', ''types'', ''before'', ''every'', ''commit'']"
    by code_simp
  have f: "first_five_distinct ''Always check types before every commit''
       = [''always'', ''check'', ''types'', ''before'', ''every'']"
    unfolding first_five_distinct_def w by simp
  have k: "trigger_keywords (\<lambda>ws. rev (remdups ws)) ''Always check types before every commit''
       = [''commit'', ''every'', ''before'', ''types'', ''check'']"
    unfolding trigger_keywords_def w by simp
  show ?thesis
    unfolding f k using iterates_set_rev_remdups by simp
qed

end
